theory Spec2Isabelle
  imports Complex_Main "HOL-Library.Multiset"
begin

section \<open>The chat client of src/App.jsx\<close>

text \<open>
  The component \<open>App\<close> keeps eight pieces of React state and talks to three outside
  parties: the Firebase SDK (authentication and the Firestore collection of messages),
  the browser's \<open>localStorage\<close>, and the console. Every handler of the component is
  modelled as a function from the state before to the state after; what the outside
  party answers (a promise resolving or rejecting, a snapshot, a random number) is an
  argument of the handler.
\<close>

subsection \<open>Strings and truthiness\<close>

text \<open>
  \<open>String.prototype.trim\<close> removes white space and line terminators from both ends.
  Of the code points ECMAScript lists, those that fit a \<open>char\<close> are TAB, LF, VT, FF, CR,
  SPACE and NBSP.
\<close>

definition is_white_space :: "char \<Rightarrow> bool" where
  "is_white_space c =
     (c \<in> set [CHR 0x09, CHR 0x0A, CHR 0x0B, CHR 0x0C, CHR 0x0D, CHR 0x20, CHR 0xA0])"

definition trim :: "string \<Rightarrow> string" where
  "trim s = rev (dropWhile is_white_space (rev (dropWhile is_white_space s)))"

text \<open>
  A state slot of type \<open>string | null\<close> is a \<open>string option\<close>. JavaScript's \<open>!x\<close> and
  \<open>x || y\<close> test truthiness: \<open>null\<close>, \<open>undefined\<close> and the empty string are falsy.
\<close>

fun truthy :: "string option \<Rightarrow> bool" where
  "truthy None = False"
| "truthy (Some s) = (s \<noteq> [])"

subsection \<open>Messages\<close>

text \<open>
  The data of a document of the collection: sender, name and text are strings or
  absent; the timestamp is a Firestore \<open>Timestamp\<close>, which the backend puts in place of
  the \<open>serverTimestamp()\<close> sentinel of line 125, or absent while the write is pending.
  A \<open>Timestamp\<close> is given by the number its \<open>toMillis()\<close> returns,
  \<open>seconds * 1000 + nanoseconds / 1e6\<close>: milliseconds since 1970 with a fractional
  part, taken as a real number.
\<close>

record doc_data =
  senderId :: "string option"
  senderName :: "string option"
  msg_text :: "string option"
  timestamp :: "real option"

text \<open>The element \<open>{ id: doc.id, ...doc.data() }\<close> pushed onto \<open>fetchedMessages\<close>.\<close>

record message = doc_data +
  msg_id :: string

definition fetched :: "string \<times> doc_data \<Rightarrow> message" where
  "fetched d = \<lparr>senderId = senderId (snd d), senderName = senderName (snd d),
     msg_text = msg_text (snd d), timestamp = timestamp (snd d), msg_id = fst d\<rparr>"

text \<open>What \<open>addDoc\<close> is given: the timestamp is the \<open>serverTimestamp()\<close> sentinel or a
  time value chosen by the client.\<close>

datatype timestamp_field = serverTimestamp | ClientTime real

record new_doc =
  new_senderId :: "string option"
  new_senderName :: "string option"
  new_text :: string
  new_timestamp :: timestamp_field

subsection \<open>Sorting a snapshot\<close>

text \<open>\<open>m.timestamp?.toMillis() || 0\<close>: absent gives \<open>undefined\<close>, which is falsy, as is \<open>0\<close>.\<close>

definition millis_or_0 :: "message \<Rightarrow> real" where
  "millis_or_0 m = (case timestamp m of None \<Rightarrow> 0 | Some t \<Rightarrow> (if t = 0 then 0 else t))"

text \<open>The comparator \<open>(a, b) => (a.timestamp?.toMillis() || 0) - (b.timestamp?.toMillis() || 0)\<close>.\<close>

definition compare_ts :: "message \<Rightarrow> message \<Rightarrow> real" where
  "compare_ts a b = millis_or_0 a - millis_or_0 b"

text \<open>
  \<open>Array.prototype.sort\<close> with a comparator is a stable sort (ECMAScript 2019): an
  element goes before the elements it does not compare greater than.
\<close>

fun insert_sorted :: "('a \<Rightarrow> 'a \<Rightarrow> real) \<Rightarrow> 'a \<Rightarrow> 'a list \<Rightarrow> 'a list" where
  "insert_sorted c x [] = [x]"
| "insert_sorted c x (y # ys) = (if c x y \<le> 0 then x # y # ys else y # insert_sorted c x ys)"

definition array_sort :: "('a \<Rightarrow> 'a \<Rightarrow> real) \<Rightarrow> 'a list \<Rightarrow> 'a list" where
  "array_sort c xs = foldr (insert_sorted c) xs []"

subsection \<open>The values injected by the hosting page\<close>

datatype json =
    JNull
  | JBool bool
  | JNumber int
  | JString string
  | JArray "json list"
  | JObject "(string \<times> json) list"

text \<open>
  \<open>__app_id\<close>, \<open>__firebase_config\<close> and \<open>__initial_auth_token\<close> are declared
  \<open>string | undefined\<close>. The configuration text is represented by what \<open>JSON.parse\<close>
  does with it: \<open>Inl\<close> the message of the \<open>SyntaxError\<close> it throws, \<open>Inr\<close> the value
  it returns.
\<close>

record globals =
  app_id :: "string option"
  firebase_config :: "(string + json) option"
  initial_auth_token :: "string option"

text \<open>\<open>Object.keys(v).length\<close>; \<open>Object.keys(null)\<close> throws a \<open>TypeError\<close>.\<close>

fun keys_length :: "json \<Rightarrow> string + nat" where
  "keys_length JNull = Inl ''Cannot convert undefined or null to object''"
| "keys_length (JBool b) = Inr 0"
| "keys_length (JNumber n) = Inr 0"
| "keys_length (JString s) = Inr (length s)"
| "keys_length (JArray xs) = Inr (length xs)"
| "keys_length (JObject kvs) = Inr (length (remdups (map fst kvs)))"

text \<open>\<open>artifacts/${__app_id || 'default-app-id'}/public/data/messages\<close>\<close>

definition messages_path :: "globals \<Rightarrow> string" where
  "messages_path g =
     ''artifacts/'' @
     (case app_id g of
        None \<Rightarrow> ''default-app-id''
      | Some a \<Rightarrow> (if a = [] then ''default-app-id'' else a)) @
     ''/public/data/messages''"

subsection \<open>State\<close>

datatype firestore = Firestore

datatype firebase_auth = FirebaseAuth

text \<open>The requests the component sends to the backend, in the order it sends them.\<close>

datatype backend_call =
    SignInWithCustomToken string
  | SignInAnonymously
  | AddDoc string new_doc

text \<open>
  The eight \<open>useState\<close> slots, then the outside world: the \<open>localStorage\<close> of the
  browser, the lines written with \<open>console.error\<close> (label and message), the backend
  calls made so far, and whether the listener of \<open>onAuthStateChanged\<close> is registered.
\<close>

record app =
  messages :: "message list"
  newMessage :: string
  userId :: "string option"
  userName :: "string option"
  db :: "firestore option"
  auth :: "firebase_auth option"
  loading :: bool
  error :: "string option"
  localStorage :: "string \<rightharpoonup> string"
  console :: "(string \<times> string) list"
  calls :: "backend_call list"
  authListener :: bool

text \<open>The initial values of the \<open>useState\<close> calls, in a browser whose storage is \<open>ls\<close>.\<close>

definition initial :: "(string \<rightharpoonup> string) \<Rightarrow> app" where
  "initial ls = \<lparr>messages = [], newMessage = [], userId = None, userName = None,
     db = None, auth = None, loading = True, error = None,
     localStorage = ls, console = [], calls = [], authListener = False\<rparr>"

subsection \<open>Bootstrap: \<open>initializeFirebase\<close>\<close>

text \<open>
  Lines 26 to 35, up to the first statement that throws: parsing the configuration,
  the check of its keys, and the three SDK calls \<open>initializeApp\<close>, \<open>getFirestore\<close>,
  \<open>getAuth\<close>, whose outcome \<open>sdk\<close> is \<open>None\<close> when they return and the message of the
  error when one of them throws.
\<close>

definition init_sdk :: "globals \<Rightarrow> string option \<Rightarrow> string + unit" where
  "init_sdk g sdk =
     (case (case firebase_config g of None \<Rightarrow> Inr (JObject []) | Some r \<Rightarrow> r) of
        Inl msg \<Rightarrow> Inl msg
      | Inr firebaseConfig \<Rightarrow>
          (case keys_length firebaseConfig of
             Inl msg \<Rightarrow> Inl msg
           | Inr n \<Rightarrow>
               if n = 0 then Inl ''Firebase config not provided.''
               else (case sdk of Some msg \<Rightarrow> Inl msg | None \<Rightarrow> Inr ())))"

text \<open>
  \<open>rnd\<close> is the string \<open>Math.random().toString(36)\<close>; \<open>substring(7)\<close> drops its first
  seven characters.
\<close>

definition initializeFirebase :: "globals \<Rightarrow> string option \<Rightarrow> string \<Rightarrow> app \<Rightarrow> app" where
  "initializeFirebase g sdk rnd s =
     (case init_sdk g sdk of
        Inl msg \<Rightarrow>
          s\<lparr>console := console s @ [(''Firebase Initialization Error:'', msg)],
            error := Some (''Failed to initialize Firebase: '' @ msg),
            loading := False\<rparr>
      | Inr u \<Rightarrow>
          (let storedUserName = localStorage s ''chatUserName'' in
           s\<lparr>db := Some Firestore,
             auth := Some FirebaseAuth,
             userName := (if truthy storedUserName then storedUserName
                          else Some (''User-'' @ drop 7 rnd)),
             authListener := True\<rparr>))"

definition mount :: "globals \<Rightarrow> string option \<Rightarrow> string \<Rightarrow> (string \<rightharpoonup> string) \<Rightarrow> app" where
  "mount g sdk rnd ls = initializeFirebase g sdk rnd (initial ls)"

text \<open>
  The listener given to \<open>onAuthStateChanged\<close>: \<open>user\<close> is the uid of the signed-in user
  or \<open>None\<close>; \<open>signIn\<close> is the outcome of the sign-in the listener then awaits, \<open>None\<close>
  when it resolves and the message of the error when it rejects.
\<close>

definition authStateChanged :: "globals \<Rightarrow> string option \<Rightarrow> string option \<Rightarrow> app \<Rightarrow> app" where
  "authStateChanged g user signIn s =
     (case user of
        Some uid \<Rightarrow> s\<lparr>userId := Some uid, loading := False\<rparr>
      | None \<Rightarrow>
          (let s1 = s\<lparr>calls := calls s @
                 [case initial_auth_token g of
                    Some t \<Rightarrow> SignInWithCustomToken t
                  | None \<Rightarrow> SignInAnonymously]\<rparr>
           in case signIn of
                None \<Rightarrow> s1
              | Some msg \<Rightarrow>
                  s1\<lparr>console := console s1 @ [(''Firebase Auth Error:'', msg)],
                     error := Some (''Authentication failed: '' @ msg),
                     loading := False\<rparr>))"

subsection \<open>The message feed\<close>

definition snapshotNext :: "(string \<times> doc_data) list \<Rightarrow> app \<Rightarrow> app" where
  "snapshotNext docs s = s\<lparr>messages := array_sort compare_ts (map fetched docs)\<rparr>"

definition snapshotError :: "string \<Rightarrow> app \<Rightarrow> app" where
  "snapshotError msg s =
     s\<lparr>console := console s @ [(''Error fetching messages:'', msg)],
       error := Some (''Failed to fetch messages: '' @ msg)\<rparr>"

subsection \<open>The composer and the display name\<close>

text \<open>
  \<open>outcome\<close> is what the awaited \<open>addDoc\<close> does: \<open>None\<close> when it resolves, the message
  of the error when it rejects.
\<close>

definition handleSendMessage :: "globals \<Rightarrow> string option \<Rightarrow> app \<Rightarrow> app" where
  "handleSendMessage g outcome s =
     (if trim (newMessage s) = [] \<or> db s = None \<or> \<not> truthy (userId s) \<or> \<not> truthy (userName s)
      then s
      else
        (let s1 = s\<lparr>calls := calls s @
               [AddDoc (messages_path g)
                  \<lparr>new_senderId = userId s, new_senderName = userName s,
                   new_text = newMessage s, new_timestamp = serverTimestamp\<rparr>]\<rparr>
         in case outcome of
              None \<Rightarrow> s1\<lparr>newMessage := []\<rparr>
            | Some msg \<Rightarrow>
                s1\<lparr>console := console s1 @ [(''Error sending message:'', msg)],
                   error := Some (''Failed to send message: '' @ msg)\<rparr>))"

definition handleUserNameChange :: "string \<Rightarrow> app \<Rightarrow> app" where
  "handleUserNameChange newName s =
     s\<lparr>userName := Some newName,
       localStorage := (localStorage s)(''chatUserName'' \<mapsto> newName)\<rparr>"

text \<open>The \<open>onChange\<close> of the message input: \<open>setNewMessage(e.target.value)\<close>.\<close>

definition inputChange :: "string \<Rightarrow> app \<Rightarrow> app" where
  "inputChange v s = s\<lparr>newMessage := v\<rparr>"

subsection \<open>The view\<close>

text \<open>
  One rendered message: the React key, the alignment class of the outer \<open>div\<close>, the
  classes of the bubble that depend on the sender, the label and the text. The time of
  day under the text is formatted by the locale and left out.
\<close>

record row =
  row_key :: string
  justify :: string
  bubble :: string
  label :: "string option"
  body :: "string option"

record chat =
  shownUserId :: "string option"
  nameInput :: string
  emptyHint :: bool
  rows :: "row list"
  messageInput :: string

datatype view = LoadingScreen | ErrorScreen string | ChatScreen chat

text \<open>
  \<open>msg.senderId === userId\<close>: a field that is absent reads as \<open>undefined\<close>, which is
  not strictly equal to \<open>null\<close>, the value of \<open>userId\<close> before sign-in.
\<close>

definition is_own :: "message \<Rightarrow> string option \<Rightarrow> bool" where
  "is_own msg uid = (case senderId msg of None \<Rightarrow> False | Some i \<Rightarrow> uid = Some i)"

definition render_message :: "string option \<Rightarrow> message \<Rightarrow> row" where
  "render_message uid msg =
     \<lparr>row_key = msg_id msg,
      justify = (if is_own msg uid then ''justify-end'' else ''justify-start''),
      bubble = (if is_own msg uid then ''bg-blue-500 text-white rounded-br-none''
                else ''bg-gray-200 text-gray-800 dark:bg-gray-700 dark:text-gray-200 rounded-bl-none''),
      label = (if is_own msg uid then Some ''You''
               else if truthy (senderName msg) then senderName msg else senderId msg),
      body = msg_text msg\<rparr>"

definition render :: "app \<Rightarrow> view" where
  "render s =
     (if loading s then LoadingScreen
      else if truthy (error s) then ErrorScreen (case error s of None \<Rightarrow> [] | Some e \<Rightarrow> e)
      else ChatScreen
        \<lparr>shownUserId = (if truthy (userId s) then userId s else None),
         nameInput = (case userName s of None \<Rightarrow> [] | Some n \<Rightarrow> n),
         emptyHint = (length (messages s) = 0),
         rows = map (render_message (userId s)) (messages s),
         messageInput = newMessage s\<rparr>)"

fun is_chat :: "view \<Rightarrow> bool" where
  "is_chat (ChatScreen c) = True"
| "is_chat v = False"

fun view_rows :: "view \<Rightarrow> row list" where
  "view_rows (ChatScreen c) = rows c"
| "view_rows v = []"

subsection \<open>Runs\<close>

text \<open>
  What can happen after the component is mounted: a callback of the auth listener, a
  snapshot or an error of the feed, a submit of the form, an edit of the name or of the
  message input.
\<close>

datatype event =
    AuthState "string option" "string option"
  | SnapshotNext "(string \<times> doc_data) list"
  | SnapshotError string
  | Submit "string option"
  | NameChange string
  | InputChange string

fun step :: "globals \<Rightarrow> app \<Rightarrow> event \<Rightarrow> app" where
  "step g s (AuthState user signIn) = authStateChanged g user signIn s"
| "step g s (SnapshotNext docs) = snapshotNext docs s"
| "step g s (SnapshotError msg) = snapshotError msg s"
| "step g s (Submit outcome) = handleSendMessage g outcome s"
| "step g s (NameChange newName) = handleUserNameChange newName s"
| "step g s (InputChange v) = inputChange v s"

definition run :: "globals \<Rightarrow> event list \<Rightarrow> app \<Rightarrow> app" where
  "run g es s = foldl (step g) s es"

text \<open>
  An event can occur only where its source exists: the auth listener once it is
  registered, the feed while the effect of line 83 holds a subscription
  (\<open>db && userId\<close>), the form and the inputs while the chat is on screen.
\<close>

fun enabled :: "app \<Rightarrow> event \<Rightarrow> bool" where
  "enabled s (AuthState user signIn) = authListener s"
| "enabled s (SnapshotNext docs) = (db s \<noteq> None \<and> truthy (userId s))"
| "enabled s (SnapshotError msg) = (db s \<noteq> None \<and> truthy (userId s))"
| "enabled s (Submit outcome) = is_chat (render s)"
| "enabled s (NameChange newName) = is_chat (render s)"
| "enabled s (InputChange v) = is_chat (render s)"

fun feasible :: "globals \<Rightarrow> event list \<Rightarrow> app \<Rightarrow> bool" where
  "feasible g [] s = True"
| "feasible g (e # es) s = (enabled s e \<and> feasible g es (step g s e))"

fun is_name_change :: "event \<Rightarrow> bool" where
  "is_name_change (NameChange newName) = True"
| "is_name_change e = False"

subsection \<open>The order the specification asks of the published list\<close>

text \<open>
  Ascending by timestamp with a missing timestamp as the minimum value: a record
  without a timestamp may precede any record, a record with a timestamp may precede
  only records with a timestamp that is not smaller.
\<close>

fun missing_is_minimum :: "message \<Rightarrow> message \<Rightarrow> bool" where
  "missing_is_minimum a b =
     (case timestamp a of
        None \<Rightarrow> True
      | Some x \<Rightarrow> (case timestamp b of None \<Rightarrow> False | Some y \<Rightarrow> x \<le> y))"

subsection \<open>Example inputs\<close>

definition demo_globals :: globals where
  "demo_globals = \<lparr>app_id = Some ''demo'',
     firebase_config = Some (Inr (JObject [(''projectId'', JString ''demo'')])),
     initial_auth_token = None\<rparr>"

definition demo_doc :: "string \<Rightarrow> string \<Rightarrow> string \<Rightarrow> real option \<Rightarrow> string \<times> doc_data" where
  "demo_doc i sender name t =
     (i, \<lparr>senderId = Some sender, senderName = Some name, msg_text = Some ''hi'', timestamp = t\<rparr>)"

text \<open>Mounted with a configuration, signed in as \<open>u1\<close>: the chat is on screen.\<close>

definition demo_ready :: app where
  "demo_ready = run demo_globals [AuthState (Some ''u1'') None]
     (mount demo_globals None ''0.4fzyo82mvyr'' Map.empty)"

definition demo_feed :: "(string \<times> doc_data) list" where
  "demo_feed = [demo_doc ''a'' ''u1'' ''Al'' (Some 100), demo_doc ''b'' ''u2'' ''Bob'' (Some 50)]"

text \<open>A snapshot with a pending write between two confirmed messages.\<close>

definition demo_pending :: "(string \<times> doc_data) list" where
  "demo_pending = [demo_doc ''a'' ''u1'' ''Al'' (Some 100), demo_doc ''p'' ''u1'' ''Al'' None,
     demo_doc ''b'' ''u2'' ''Bob'' (Some 50.25)]"

text \<open>Two messages received, \<open>hello\<close> typed into the message input.\<close>

definition demo_chatting :: app where
  "demo_chatting = run demo_globals [SnapshotNext demo_feed, InputChange ''hello''] demo_ready"

text \<open>The hosting page injects the configuration \<open>{}\<close>.\<close>

definition demo_empty_config :: globals where
  "demo_empty_config = demo_globals\<lparr>firebase_config := Some (Inr (JObject []))\<rparr>"

text \<open>A snapshot of one message of \<open>u2\<close> whose \<open>senderName\<close> is the empty string.\<close>

definition demo_named :: "(string \<times> doc_data) list" where
  "demo_named = [demo_doc ''c'' ''u2'' [] (Some 7)]"

text \<open>The chat that \<open>u1\<close> sees once \<open>demo_feed\<close> has arrived.\<close>

definition demo_view :: chat where
  "demo_view = \<lparr>shownUserId = Some ''u1'', nameInput = ''User-82mvyr'', emptyHint = False,
     rows = [\<lparr>row_key = ''b'', justify = ''justify-start'',
              bubble = ''bg-gray-200 text-gray-800 dark:bg-gray-700 dark:text-gray-200 rounded-bl-none'',
              label = Some ''Bob'', body = Some ''hi''\<rparr>,
             \<lparr>row_key = ''a'', justify = ''justify-end'',
              bubble = ''bg-blue-500 text-white rounded-br-none'',
              label = Some ''You'', body = Some ''hi''\<rparr>],
     messageInput = []\<rparr>"

subsection \<open>Notions used by the properties\<close>

text \<open>
  A timestamp as the backend assigns it (section 3 of the specification): absent while
  the write is pending, otherwise the time at which the write was accepted, which is
  after 1970.
\<close>

definition server_stamped :: "'a doc_data_scheme \<Rightarrow> bool" where
  "server_stamped d = (case timestamp d of None \<Rightarrow> True | Some t \<Rightarrow> 0 < t)"

text \<open>The negation of the guard of \<open>handleSendMessage\<close> (line 115).\<close>

definition can_send :: "app \<Rightarrow> bool" where
  "can_send s =
     (trim (newMessage s) \<noteq> [] \<and> db s \<noteq> None \<and> truthy (userId s) \<and> truthy (userName s))"

text \<open>The object literal given to \<open>addDoc\<close> (lines 121 to 126).\<close>

definition sent_doc :: "app \<Rightarrow> new_doc" where
  "sent_doc s = \<lparr>new_senderId = userId s, new_senderName = userName s,
     new_text = newMessage s, new_timestamp = serverTimestamp\<rparr>"

text \<open>Off the loading screen without an error, a user is signed in.\<close>

definition signed_in :: "app \<Rightarrow> bool" where
  "signed_in s = (loading s \<or> truthy (error s) \<or> userId s \<noteq> None)"

section \<open>Properties\<close>

lemmas handler_defs = authStateChanged_def snapshotNext_def snapshotError_def
  handleSendMessage_def handleUserNameChange_def inputChange_def

lemmas demo_defs = demo_ready_def demo_chatting_def demo_feed_def demo_doc_def demo_globals_def
  mount_def initializeFirebase_def init_sdk_def initial_def run_def

subsection \<open>Runs and what every handler preserves\<close>

lemma run_Nil: "run g [] s = s"
  by (simp add: run_def)

lemma run_Cons: "run g (e # es) s = run g es (step g s e)"
  by (simp add: run_def)

lemma step_not_loading: "\<not> loading s \<Longrightarrow> \<not> loading (step g s e)"
  by (cases e) (auto simp: handler_defs Let_def split: option.splits)

lemma run_not_loading: "\<not> loading s \<Longrightarrow> \<not> loading (run g es s)"
  by (induction es arbitrary: s) (simp_all add: run_Nil run_Cons step_not_loading)

text \<open>No handler stores \<open>null\<close> or an empty string in \<open>error\<close>.\<close>

lemma step_error_stays: "truthy (error s) \<Longrightarrow> truthy (error (step g s e))"
  by (cases e) (auto simp: handler_defs Let_def split: option.splits)

lemma run_error_stays: "truthy (error s) \<Longrightarrow> truthy (error (run g es s))"
  by (induction es arbitrary: s) (simp_all add: run_Nil run_Cons step_error_stays)

text \<open>Only \<open>handleUserNameChange\<close> calls \<open>localStorage.setItem\<close>.\<close>

lemma step_localStorage: "\<not> is_name_change e \<Longrightarrow> localStorage (step g s e) = localStorage s"
  by (cases e) (auto simp: handler_defs Let_def split: option.splits)

lemma run_localStorage:
  "\<forall>e \<in> set es. \<not> is_name_change e \<Longrightarrow> localStorage (run g es s) = localStorage s"
  by (induction es arbitrary: s) (simp_all add: run_Nil run_Cons step_localStorage)

lemma step_signed_in: "signed_in s \<Longrightarrow> signed_in (step g s e)"
  by (cases e) (auto simp: signed_in_def handler_defs Let_def split: option.splits)

lemma run_signed_in: "signed_in s \<Longrightarrow> signed_in (run g es s)"
  by (induction es arbitrary: s) (simp_all add: run_Nil run_Cons step_signed_in)

lemma mount_signed_in: "signed_in (mount g sdk rnd ls)"
  by (simp add: signed_in_def mount_def initializeFirebase_def initial_def Let_def
      split: sum.splits)

lemma is_chat_render: "is_chat (render s) = (\<not> loading s \<and> \<not> truthy (error s))"
  by (simp add: render_def)

lemma handleSendMessage_can_send:
  "can_send s \<Longrightarrow> handleSendMessage g outcome s =
     (case outcome of
        None \<Rightarrow> s\<lparr>calls := calls s @ [AddDoc (messages_path g) (sent_doc s)], newMessage := []\<rparr>
      | Some msg \<Rightarrow> s\<lparr>calls := calls s @ [AddDoc (messages_path g) (sent_doc s)],
           console := console s @ [(''Error sending message:'', msg)],
           error := Some (''Failed to send message: '' @ msg)\<rparr>)"
  by (auto simp: can_send_def handleSendMessage_def sent_doc_def Let_def split: option.splits)

lemma demo_chatting_can_send: "can_send demo_chatting"
  by (simp add: can_send_def demo_defs handler_defs trim_def is_white_space_def)

lemma demo_chatting_is_chat: "is_chat (render demo_chatting)"
  by (simp add: demo_defs handler_defs render_def)

lemma demo_init_sdk: "init_sdk demo_globals None = Inr ()"
  by (simp add: init_sdk_def demo_globals_def)

text \<open>Only \<open>initializeFirebase\<close> and \<open>handleUserNameChange\<close> call \<open>setUserName\<close>.\<close>

lemma step_userName: "\<not> is_name_change e \<Longrightarrow> userName (step g s e) = userName s"
  by (cases e) (auto simp: handler_defs Let_def split: option.splits)

lemma run_userName:
  "\<forall>e \<in> set es. \<not> is_name_change e \<Longrightarrow> userName (run g es s) = userName s"
  by (induction es arbitrary: s) (simp_all add: run_Nil run_Cons step_userName)

text \<open>Once an error is stored off the loading screen, the error screen stays.\<close>

lemma run_error_screen:
  assumes "\<not> loading s" and "truthy (error s)"
  shows "\<exists>e. render (run g es s) = ErrorScreen e"
proof -
  from assms have "\<not> loading (run g es s)" and "truthy (error (run g es s))"
    by (simp_all add: run_not_loading run_error_stays)
  then show ?thesis by (simp add: render_def)
qed

lemma mount_loads_name:
  "init_sdk g sdk = Inr () \<Longrightarrow>
   userName (mount g sdk rnd ls) =
     (if truthy (ls ''chatUserName'') then ls ''chatUserName'' else Some (''User-'' @ drop 7 rnd))"
  by (simp add: mount_def initializeFirebase_def initial_def)

lemma initializeFirebase_localStorage:
  "localStorage (initializeFirebase g sdk rnd s) = localStorage s"
  by (simp add: initializeFirebase_def Let_def split: sum.splits)

subsection \<open>The published list\<close>

text \<open>The comparator orders by \<open>millis_or_0\<close>, so the sort is the stable sort by that key.\<close>

lemma insert_sorted_compare_ts:
  "insert_sorted compare_ts x ys = insort_key millis_or_0 x ys"
  by (induction ys) (simp_all add: compare_ts_def)

lemma array_sort_compare_ts: "array_sort compare_ts xs = sort_key millis_or_0 xs"
  by (induction xs) (simp_all add: array_sort_def sort_key_def insert_sorted_compare_ts)

lemma messages_snapshotNext:
  "messages (snapshotNext docs s) = sort_key millis_or_0 (map fetched docs)"
  by (simp add: snapshotNext_def array_sort_compare_ts)

lemma server_stamped_fetched: "server_stamped (fetched d) = server_stamped (snd d)"
  by (simp add: server_stamped_def fetched_def)

text \<open>
  On timestamps that the backend assigned, the order of the sort key is the order of
  the timestamps with a missing one as the minimum.
\<close>

lemma key_order_missing_is_minimum:
  assumes "millis_or_0 a \<le> millis_or_0 b" and "server_stamped a" and "server_stamped b"
  shows "missing_is_minimum a b"
  using assms by (auto simp: millis_or_0_def server_stamped_def split: option.splits)

lemma sorted_key_missing_is_minimum:
  assumes srt: "sorted (map millis_or_0 out)" and st: "\<forall>m \<in> set out. server_stamped m"
  shows "sorted_wrt missing_is_minimum out"
proof -
  from srt have "sorted_wrt (\<lambda>a b. millis_or_0 a \<le> millis_or_0 b) out"
    by (simp add: sorted_map)
  then show ?thesis
  proof (rule sorted_wrt_mono_rel [rotated])
    fix a b
    assume "a \<in> set out" and "b \<in> set out" and "millis_or_0 a \<le> millis_or_0 b"
    with st show "missing_is_minimum a b"
      by (intro key_order_missing_is_minimum) simp_all
  qed
qed

text \<open>
  C1. For every snapshot delivered by the feed, its timestamps being those the backend
  assigned, the list published to the view holds exactly the records of the snapshot,
  sorted ascending by timestamp with a missing timestamp as the minimum value: every
  record without a timestamp comes before all records that have one.
\<close>

theorem snapshot_sorted_by_timestamp:
  assumes "\<forall>d \<in> set docs. server_stamped (snd d)"
  shows "sorted_wrt missing_is_minimum (messages (snapshotNext docs s))
    \<and> mset (messages (snapshotNext docs s)) = mset (map fetched docs)
    \<and> (\<forall>i j. i < length (messages (snapshotNext docs s))
          \<and> j < length (messages (snapshotNext docs s))
          \<and> timestamp (messages (snapshotNext docs s) ! i) = None
          \<and> timestamp (messages (snapshotNext docs s) ! j) \<noteq> None
        \<longrightarrow> i < j)"
proof -
  let ?out = "messages (snapshotNext docs s)"
  have out: "?out = sort_key millis_or_0 (map fetched docs)"
    by (rule messages_snapshotNext)
  have perm: "mset ?out = mset (map fetched docs)"
    by (simp only: out mset_sort)
  have key: "sorted (map millis_or_0 ?out)"
    by (simp add: out)
  from assms have "\<forall>m \<in> set ?out. server_stamped m"
    by (auto simp: out server_stamped_fetched)
  with key have srt: "sorted_wrt missing_is_minimum ?out"
    by (rule sorted_key_missing_is_minimum)
  have first: "i < j"
    if "i < length ?out" and "j < length ?out"
      and "timestamp (?out ! i) = None" and "timestamp (?out ! j) \<noteq> None" for i j
  proof (rule ccontr)
    assume "\<not> i < j"
    with that have "j < i" by (cases "i = j") auto
    with srt that have "missing_is_minimum (?out ! j) (?out ! i)"
      by (simp add: sorted_wrt_iff_nth_less)
    with that show False by (auto split: option.splits)
  qed
  from srt perm first show ?thesis by blast
qed

text \<open>
  The theorem at a snapshot of three records, the pending one delivered between two
  confirmed ones: it is published first, the other two follow by time.
\<close>

theorem snapshot_sorted_by_timestamp_witness:
  "server_stamped (snd (demo_doc ''a'' ''u1'' ''Al'' (Some 100)))
   \<and> server_stamped (snd (demo_doc ''p'' ''u1'' ''Al'' None))
   \<and> server_stamped (snd (demo_doc ''b'' ''u2'' ''Bob'' (Some 50.25)))
   \<and> map msg_id (messages (snapshotNext demo_pending demo_ready)) = [''p'', ''b'', ''a'']
   \<and> map timestamp (messages (snapshotNext demo_pending demo_ready)) = [None, Some 50.25, Some 100]
   \<and> sorted_wrt missing_is_minimum (messages (snapshotNext demo_pending demo_ready))
   \<and> mset (messages (snapshotNext demo_pending demo_ready)) = mset (map fetched demo_pending)"
proof -
  have st: "server_stamped (snd (demo_doc ''a'' ''u1'' ''Al'' (Some 100)))
      \<and> server_stamped (snd (demo_doc ''p'' ''u1'' ''Al'' None))
      \<and> server_stamped (snd (demo_doc ''b'' ''u2'' ''Bob'' (Some 50.25)))"
    by (simp add: server_stamped_def demo_doc_def)
  then have h: "\<forall>d \<in> set demo_pending. server_stamped (snd d)"
    by (simp add: demo_pending_def)
  note t = snapshot_sorted_by_timestamp [OF h, of demo_ready]
  have "messages (snapshotNext demo_pending demo_ready)
      = map fetched [demo_doc ''p'' ''u1'' ''Al'' None, demo_doc ''b'' ''u2'' ''Bob'' (Some 50.25),
          demo_doc ''a'' ''u1'' ''Al'' (Some 100)]"
    by (simp add: snapshotNext_def array_sort_def compare_ts_def millis_or_0_def fetched_def
        demo_doc_def demo_pending_def)
  then have "map msg_id (messages (snapshotNext demo_pending demo_ready)) = [''p'', ''b'', ''a'']
      \<and> map timestamp (messages (snapshotNext demo_pending demo_ready))
          = [None, Some 50.25, Some 100]"
    by (simp add: fetched_def demo_doc_def)
  with t st show ?thesis by blast
qed

subsection \<open>Sending\<close>

text \<open>
  C2. \<open>handleSendMessage\<close> changes nothing, so makes no backend call and leaves the
  message input as it is, whenever the trimmed text is empty or the backend handle,
  the user id or the display name is unavailable (\<open>null\<close>, or the empty string for
  the two strings), whatever the backend would have answered.
\<close>

theorem send_noop_when_unavailable:
  assumes "trim (newMessage s) = [] \<or> db s = None \<or> \<not> truthy (userId s) \<or> \<not> truthy (userName s)"
  shows "handleSendMessage g outcome s = s
    \<and> calls (handleSendMessage g outcome s) = calls s
    \<and> newMessage (handleSendMessage g outcome s) = newMessage s"
  using assms by (simp add: handleSendMessage_def)

theorem send_noop_when_unavailable_witness:
  "trim (newMessage (inputChange ''   '' demo_chatting)) = []
   \<and> calls (handleSendMessage demo_globals None (inputChange ''   '' demo_chatting))
       = calls (inputChange ''   '' demo_chatting)
   \<and> newMessage (handleSendMessage demo_globals None (inputChange ''   '' demo_chatting)) = ''   ''"
proof -
  have h: "trim (newMessage (inputChange ''   '' demo_chatting)) = []"
    by (simp add: inputChange_def trim_def is_white_space_def)
  from send_noop_when_unavailable [OF disjI1 [OF h], of demo_globals None] h
  show ?thesis by (simp add: inputChange_def)
qed

text \<open>
  C3. When the trimmed text is not empty and the backend handle, the user id and the
  display name are available (not \<open>null\<close> and, for the two strings, not empty), a send
  whose \<open>addDoc\<close> resolves makes exactly one backend call: \<open>addDoc\<close> on the messages
  collection with \<open>senderId\<close> the user id, \<open>senderName\<close> the display name, \<open>text\<close> the
  message input and \<open>timestamp\<close> the \<open>serverTimestamp()\<close> sentinel, never a time of the
  client. Afterwards the message input is empty.
\<close>

theorem send_appends_one_record:
  assumes "can_send s"
  shows "calls (handleSendMessage g None s) = calls s @
        [AddDoc (messages_path g)
           \<lparr>new_senderId = userId s, new_senderName = userName s,
            new_text = newMessage s, new_timestamp = serverTimestamp\<rparr>]
    \<and> newMessage (handleSendMessage g None s) = []
    \<and> error (handleSendMessage g None s) = error s"
  using assms by (simp add: handleSendMessage_can_send sent_doc_def)

theorem send_appends_one_record_witness:
  "can_send demo_chatting
   \<and> calls (handleSendMessage demo_globals None demo_chatting) =
       [AddDoc ''artifacts/demo/public/data/messages''
          \<lparr>new_senderId = Some ''u1'', new_senderName = Some ''User-82mvyr'',
           new_text = ''hello'', new_timestamp = serverTimestamp\<rparr>]
   \<and> newMessage (handleSendMessage demo_globals None demo_chatting) = []"
  using send_appends_one_record [OF demo_chatting_can_send, of demo_globals] demo_chatting_can_send
  by (simp add: demo_defs handler_defs messages_path_def)


text \<open>
  C5 as stated fails: the catch branch of \<open>handleSendMessage\<close> never calls
  \<open>setNewMessage\<close>. After \<open>hello\<close> is submitted and \<open>addDoc\<close> rejects, the error is
  stored and \<open>newMessage\<close> still holds \<open>hello\<close>.
\<close>

theorem failed_send_keeps_text:
  "can_send demo_chatting
   \<and> error (handleSendMessage demo_globals (Some ''unavailable'') demo_chatting)
       = Some ''Failed to send message: unavailable''
   \<and> newMessage (handleSendMessage demo_globals (Some ''unavailable'') demo_chatting) = ''hello''"
  using demo_chatting_can_send
  by (simp add: handleSendMessage_can_send) (simp add: demo_defs handler_defs)

text \<open>
  C5, as the code has it. When the guard is passed and \<open>addDoc\<close> rejects, the error is
  logged and stored in \<open>error\<close> as \<open>Failed to send message: ...\<close>; \<open>addDoc\<close> was called
  once and is not called again; \<open>newMessage\<close> is unchanged, so it still holds the failed
  text; and off the loading screen the view becomes the error screen, which shows no
  message input.
\<close>

theorem failed_send_publishes_error:
  assumes "can_send s"
  shows "error (handleSendMessage g (Some msg) s) = Some (''Failed to send message: '' @ msg)
    \<and> console (handleSendMessage g (Some msg) s) = console s @ [(''Error sending message:'', msg)]
    \<and> calls (handleSendMessage g (Some msg) s) = calls s @ [AddDoc (messages_path g) (sent_doc s)]
    \<and> newMessage (handleSendMessage g (Some msg) s) = newMessage s
    \<and> (\<not> loading s \<longrightarrow>
         render (handleSendMessage g (Some msg) s) = ErrorScreen (''Failed to send message: '' @ msg))"
  using assms by (simp add: handleSendMessage_can_send render_def)

theorem failed_send_publishes_error_witness:
  "can_send demo_chatting \<and> \<not> loading demo_chatting
   \<and> error (handleSendMessage demo_globals (Some ''unavailable'') demo_chatting)
       = Some ''Failed to send message: unavailable''
   \<and> newMessage (handleSendMessage demo_globals (Some ''unavailable'') demo_chatting)
       = newMessage demo_chatting
   \<and> render (handleSendMessage demo_globals (Some ''unavailable'') demo_chatting)
       = ErrorScreen ''Failed to send message: unavailable''"
proof -
  have nl: "\<not> loading demo_chatting"
    using demo_chatting_is_chat by (simp add: is_chat_render)
  from failed_send_publishes_error [OF demo_chatting_can_send, of demo_globals "''unavailable''"]
    nl demo_chatting_can_send
  show ?thesis by simp
qed

subsection \<open>The three screens\<close>

text \<open>
  C4 as stated fails: the error callback of the feed stores its message in the same
  \<open>error\<close> slot that selects the error screen. The run below is feasible from the
  mount; the chat with two messages is on screen, then the feed reports an error and
  the error screen replaces it.
\<close>

theorem feed_error_replaces_chat:
  "feasible demo_globals
     [AuthState (Some ''u1'') None, SnapshotNext demo_feed, InputChange ''hello'',
      SnapshotError ''permission-denied'']
     (mount demo_globals None ''0.4fzyo82mvyr'' Map.empty)
   \<and> is_chat (render demo_chatting)
   \<and> render (step demo_globals demo_chatting (SnapshotError ''permission-denied''))
       = ErrorScreen ''Failed to fetch messages: permission-denied''"
  by (simp add: demo_defs handler_defs render_def)

text \<open>
  C4, as the code has it. Once the chat is on screen the loading screen never comes
  back, whatever happens. An error of the feed, or a send that passes the guard and
  whose \<open>addDoc\<close> rejects, is logged with \<open>console.error\<close> and stored in \<open>error\<close>; it
  leaves the list \<open>messages\<close> as it was, but the view becomes the error screen with the
  message of that error, and stays an error screen after every later event: the chat
  and its messages are no longer displayed.
\<close>

theorem ready_never_loading_errors_shown:
  assumes "is_chat (render s)"
  shows "(\<forall>es. render (run g es s) \<noteq> LoadingScreen)
    \<and> console (snapshotError msg s) = console s @ [(''Error fetching messages:'', msg)]
    \<and> error (snapshotError msg s) = Some (''Failed to fetch messages: '' @ msg)
    \<and> render (snapshotError msg s) = ErrorScreen (''Failed to fetch messages: '' @ msg)
    \<and> messages (snapshotError msg s) = messages s
    \<and> (\<forall>es. \<exists>e. render (run g es (snapshotError msg s)) = ErrorScreen e)
    \<and> (can_send s \<longrightarrow>
         console (handleSendMessage g (Some msg) s) = console s @ [(''Error sending message:'', msg)]
         \<and> error (handleSendMessage g (Some msg) s) = Some (''Failed to send message: '' @ msg)
         \<and> render (handleSendMessage g (Some msg) s) = ErrorScreen (''Failed to send message: '' @ msg)
         \<and> messages (handleSendMessage g (Some msg) s) = messages s
         \<and> (\<forall>es. \<exists>e. render (run g es (handleSendMessage g (Some msg) s)) = ErrorScreen e))"
proof -
  from assms have nl: "\<not> loading s" by (simp add: is_chat_render)
  have a: "\<forall>es. render (run g es s) \<noteq> LoadingScreen"
  proof
    fix es
    from nl have "\<not> loading (run g es s)" by (rule run_not_loading)
    then show "render (run g es s) \<noteq> LoadingScreen" by (simp add: render_def)
  qed
  have b: "render (snapshotError msg s) = ErrorScreen (''Failed to fetch messages: '' @ msg)"
    using nl by (simp add: render_def snapshotError_def)
  have c: "messages (snapshotError msg s) = messages s"
    by (simp add: snapshotError_def)
  have d: "\<forall>es. \<exists>e. render (run g es (snapshotError msg s)) = ErrorScreen e"
    using nl by (simp add: run_error_screen snapshotError_def)
  have e: "render (handleSendMessage g (Some msg) s) = ErrorScreen (''Failed to send message: '' @ msg)"
    if "can_send s"
    using nl that by (simp add: handleSendMessage_can_send render_def)
  have f: "messages (handleSendMessage g (Some msg) s) = messages s" if "can_send s"
    using that by (simp add: handleSendMessage_can_send)
  have h: "\<forall>es. \<exists>e. render (run g es (handleSendMessage g (Some msg) s)) = ErrorScreen e"
    if "can_send s"
    using nl that by (simp add: handleSendMessage_can_send run_error_screen)
  have lf: "console (snapshotError msg s) = console s @ [(''Error fetching messages:'', msg)]"
    by (simp add: snapshotError_def)
  have ef: "error (snapshotError msg s) = Some (''Failed to fetch messages: '' @ msg)"
    by (simp add: snapshotError_def)
  have ls: "console (handleSendMessage g (Some msg) s)
      = console s @ [(''Error sending message:'', msg)]" if "can_send s"
    using that by (simp add: handleSendMessage_can_send)
  have es: "error (handleSendMessage g (Some msg) s) = Some (''Failed to send message: '' @ msg)"
    if "can_send s"
    using that by (simp add: handleSendMessage_can_send)
  from a b c d e f h lf ef ls es show ?thesis by blast
qed

theorem ready_never_loading_errors_shown_witness:
  "is_chat (render demo_chatting)
   \<and> render (run demo_globals [SnapshotError ''permission-denied'', InputChange ''x''] demo_chatting)
       \<noteq> LoadingScreen
   \<and> render (snapshotError ''permission-denied'' demo_chatting)
       = ErrorScreen ''Failed to fetch messages: permission-denied''
   \<and> messages (snapshotError ''permission-denied'' demo_chatting) = messages demo_chatting
   \<and> console (snapshotError ''permission-denied'' demo_chatting)
       = console demo_chatting @ [(''Error fetching messages:'', ''permission-denied'')]
   \<and> console (handleSendMessage demo_globals (Some ''unavailable'') demo_chatting)
       = console demo_chatting @ [(''Error sending message:'', ''unavailable'')]
   \<and> can_send demo_chatting
   \<and> render (handleSendMessage demo_globals (Some ''unavailable'') demo_chatting)
       = ErrorScreen ''Failed to send message: unavailable''"
proof -
  note feed = ready_never_loading_errors_shown
    [OF demo_chatting_is_chat, of demo_globals "''permission-denied''"]
  note send = ready_never_loading_errors_shown
    [OF demo_chatting_is_chat, of demo_globals "''unavailable''"]
  from feed have "render (run demo_globals
      [SnapshotError ''permission-denied'', InputChange ''x''] demo_chatting) \<noteq> LoadingScreen"
    by blast
  moreover from feed have "render (snapshotError ''permission-denied'' demo_chatting)
      = ErrorScreen ''Failed to fetch messages: permission-denied''"
    by simp
  moreover from feed
  have "messages (snapshotError ''permission-denied'' demo_chatting) = messages demo_chatting"
    by blast
  moreover from send demo_chatting_can_send
  have "render (handleSendMessage demo_globals (Some ''unavailable'') demo_chatting)
      = ErrorScreen ''Failed to send message: unavailable''"
    by simp
  moreover from feed
  have "console (snapshotError ''permission-denied'' demo_chatting)
      = console demo_chatting @ [(''Error fetching messages:'', ''permission-denied'')]"
    by blast
  moreover from send demo_chatting_can_send
  have "console (handleSendMessage demo_globals (Some ''unavailable'') demo_chatting)
      = console demo_chatting @ [(''Error sending message:'', ''unavailable'')]"
    by blast
  ultimately show ?thesis
    using demo_chatting_is_chat demo_chatting_can_send by blast
qed

text \<open>
  C6. If \<open>__firebase_config\<close> is undefined or is the text \<open>{}\<close>, the bootstrap throws
  \<open>Firebase config not provided.\<close> before any SDK call: from the loading screen
  the view goes to the error screen with that message, and after every sequence of
  later events the view is still an error screen, never the chat.
\<close>

theorem empty_config_is_fatal:
  assumes "firebase_config g = None \<or> firebase_config g = Some (Inr (JObject []))"
  shows "render (initial ls) = LoadingScreen
    \<and> init_sdk g sdk = Inl ''Firebase config not provided.''
    \<and> render (mount g sdk rnd ls)
        = ErrorScreen ''Failed to initialize Firebase: Firebase config not provided.''
    \<and> (\<forall>es. \<exists>e. render (run g es (mount g sdk rnd ls)) = ErrorScreen e)"
proof -
  from assms have i: "init_sdk g sdk = Inl ''Firebase config not provided.''"
    by (auto simp: init_sdk_def)
  then have m: "\<not> loading (mount g sdk rnd ls)"
    and e: "error (mount g sdk rnd ls)
      = Some ''Failed to initialize Firebase: Firebase config not provided.''"
    by (simp_all add: mount_def initializeFirebase_def)
  from m e have "\<forall>es. \<exists>e. render (run g es (mount g sdk rnd ls)) = ErrorScreen e"
    by (simp add: run_error_screen)
  moreover have "render (initial ls) = LoadingScreen"
    by (simp add: render_def initial_def)
  moreover from m e have "render (mount g sdk rnd ls)
      = ErrorScreen ''Failed to initialize Firebase: Firebase config not provided.''"
    by (simp add: render_def)
  ultimately show ?thesis using i by blast
qed

theorem empty_config_is_fatal_witness:
  "firebase_config demo_empty_config = Some (Inr (JObject []))
   \<and> render (mount demo_empty_config None ''0.4fzyo82mvyr'' Map.empty)
       = ErrorScreen ''Failed to initialize Firebase: Firebase config not provided.''
   \<and> (\<exists>e. render (run demo_empty_config [AuthState (Some ''u1'') None, InputChange ''x'']
           (mount demo_empty_config None ''0.4fzyo82mvyr'' Map.empty)) = ErrorScreen e)"
proof -
  have h: "firebase_config demo_empty_config = Some (Inr (JObject []))"
    by (simp add: demo_empty_config_def)
  from empty_config_is_fatal [OF disjI2 [OF h], of Map.empty None "''0.4fzyo82mvyr''"] h
  show ?thesis by blast
qed

subsection \<open>The display name\<close>

text \<open>
  C7 as stated fails for the empty name: it is written to \<open>localStorage\<close>, but the
  next bootstrap finds the stored string falsy and generates a default.
\<close>

theorem empty_name_not_reloaded:
  "localStorage (handleUserNameChange [] demo_chatting) ''chatUserName'' = Some []
   \<and> init_sdk demo_globals None = Inr ()
   \<and> userName (mount demo_globals None ''0.4fzyo82mvyr''
        (localStorage (handleUserNameChange [] demo_chatting))) = Some ''User-82mvyr''"
  by (simp add: mount_loads_name demo_init_sdk) (simp add: handleUserNameChange_def)

text \<open>
  C7, as the code has it. For every name other than the empty string,
  \<open>handleUserNameChange\<close> writes it to \<open>localStorage\<close> under \<open>chatUserName\<close> and to
  \<open>userName\<close> in the same call, with no backend call; and whatever happens next short
  of another edit of the name, a bootstrap that gets past the configuration and the SDK
  calls loads that name instead of generating a default.
\<close>

theorem set_name_round_trips:
  assumes "newName \<noteq> []" and "init_sdk g sdk = Inr ()" and "\<forall>e \<in> set es. \<not> is_name_change e"
  shows "localStorage (handleUserNameChange newName s) ''chatUserName'' = Some newName
    \<and> userName (handleUserNameChange newName s) = Some newName
    \<and> calls (handleUserNameChange newName s) = calls s
    \<and> userName (mount g sdk rnd (localStorage (run g es (handleUserNameChange newName s))))
        = Some newName"
  using assms by (simp add: mount_loads_name run_localStorage) (simp add: handleUserNameChange_def)

theorem set_name_round_trips_witness:
  "''Ada'' \<noteq> [] \<and> init_sdk demo_globals None = Inr ()
   \<and> \<not> is_name_change (InputChange ''bye'') \<and> \<not> is_name_change (Submit None)
   \<and> localStorage (handleUserNameChange ''Ada'' demo_chatting) ''chatUserName'' = Some ''Ada''
   \<and> userName (mount demo_globals None ''0.4fzyo82mvyr''
        (localStorage (run demo_globals [InputChange ''bye'', Submit None]
           (handleUserNameChange ''Ada'' demo_chatting)))) = Some ''Ada''"
proof -
  have n: "''Ada'' \<noteq> []" by simp
  have e: "\<forall>e \<in> set [InputChange ''bye'', Submit None]. \<not> is_name_change e" by simp
  from set_name_round_trips [OF n demo_init_sdk e, of demo_chatting] n demo_init_sdk
  show ?thesis by simp
qed

text \<open>
  C9. When \<open>localStorage\<close> holds no \<open>chatUserName\<close>, a bootstrap that gets past the
  configuration and the SDK calls sets the display name to \<open>User-\<close> followed by the
  random string from its eighth character on, and \<open>localStorage\<close> is not written: it is
  the same after the bootstrap, and after every sequence of later events in which the
  name is not edited.
\<close>

theorem default_name_not_persisted:
  assumes "ls ''chatUserName'' = None" and "init_sdk g sdk = Inr ()"
  shows "userName (mount g sdk rnd ls) = Some (''User-'' @ drop 7 rnd)
    \<and> localStorage (mount g sdk rnd ls) = ls
    \<and> (\<forall>es. (\<forall>e \<in> set es. \<not> is_name_change e)
          \<longrightarrow> localStorage (run g es (mount g sdk rnd ls)) = ls)"
proof -
  have l: "localStorage (mount g sdk rnd ls) = ls"
    by (simp add: mount_def initializeFirebase_localStorage) (simp add: initial_def)
  from assms have "userName (mount g sdk rnd ls) = Some (''User-'' @ drop 7 rnd)"
    by (simp add: mount_loads_name)
  with l show ?thesis by (simp add: run_localStorage)
qed

theorem default_name_not_persisted_witness:
  "(Map.empty :: string \<rightharpoonup> string) ''chatUserName'' = None \<and> init_sdk demo_globals None = Inr ()
   \<and> \<not> is_name_change (AuthState (Some ''u1'') None)
   \<and> \<not> is_name_change (InputChange ''hello'') \<and> \<not> is_name_change (Submit None)
   \<and> userName (mount demo_globals None ''0.4fzyo82mvyr'' Map.empty) = Some ''User-82mvyr''
   \<and> localStorage (run demo_globals [AuthState (Some ''u1'') None, InputChange ''hello'', Submit None]
        (mount demo_globals None ''0.4fzyo82mvyr'' Map.empty)) ''chatUserName'' = None"
proof -
  have h: "(Map.empty :: string \<rightharpoonup> string) ''chatUserName'' = None" by simp
  have e: "\<forall>e \<in> set [AuthState (Some ''u1'') None, InputChange ''hello'', Submit None].
      \<not> is_name_change e" by simp
  note t = default_name_not_persisted [OF h demo_init_sdk, of "''0.4fzyo82mvyr''"]
  from t have "userName (mount demo_globals None ''0.4fzyo82mvyr'' Map.empty) = Some ''User-82mvyr''"
    by simp
  moreover from t e have "localStorage (run demo_globals
      [AuthState (Some ''u1'') None, InputChange ''hello'', Submit None]
      (mount demo_globals None ''0.4fzyo82mvyr'' Map.empty)) = Map.empty"
    by blast
  ultimately show ?thesis using demo_init_sdk by simp
qed

text \<open>
  C10. Setting the display name to the empty string stores the empty string in
  \<open>localStorage\<close>. From then on, until the name is edited again, every submit is a
  no-op whatever the text, the backend handle and the user id are. At the next
  bootstrap the stored empty string counts as absent and a default is generated.
\<close>

theorem empty_name_blocks_sending:
  "localStorage (handleUserNameChange [] s) ''chatUserName'' = Some []
   \<and> (\<forall>es outcome. (\<forall>e \<in> set es. \<not> is_name_change e) \<longrightarrow>
         handleSendMessage g outcome (run g es (handleUserNameChange [] s))
           = run g es (handleUserNameChange [] s))
   \<and> (init_sdk g sdk = Inr () \<longrightarrow>
         userName (mount g sdk rnd (localStorage (handleUserNameChange [] s)))
           = Some (''User-'' @ drop 7 rnd))"
proof -
  have a: "localStorage (handleUserNameChange [] s) ''chatUserName'' = Some []"
    by (simp add: handleUserNameChange_def)
  have b: "handleSendMessage g outcome (run g es (handleUserNameChange [] s))
      = run g es (handleUserNameChange [] s)"
    if "\<forall>e \<in> set es. \<not> is_name_change e" for es outcome
  proof -
    from that have "userName (run g es (handleUserNameChange [] s)) = Some []"
      by (simp add: run_userName) (simp add: handleUserNameChange_def)
    then show ?thesis by (simp add: handleSendMessage_def)
  qed
  have c: "userName (mount g sdk rnd (localStorage (handleUserNameChange [] s)))
      = Some (''User-'' @ drop 7 rnd)" if "init_sdk g sdk = Inr ()"
    using that a by (simp add: mount_loads_name)
  from a b c show ?thesis by blast
qed

theorem empty_name_blocks_sending_witness:
  "db demo_chatting \<noteq> None \<and> truthy (userId demo_chatting)
   \<and> localStorage (handleUserNameChange [] demo_chatting) ''chatUserName'' = Some []
   \<and> \<not> is_name_change (InputChange ''anyone there?'')
   \<and> calls (handleSendMessage demo_globals None
        (run demo_globals [InputChange ''anyone there?''] (handleUserNameChange [] demo_chatting)))
       = calls (run demo_globals [InputChange ''anyone there?''] (handleUserNameChange [] demo_chatting))
   \<and> init_sdk demo_globals None = Inr ()
   \<and> userName (mount demo_globals None ''0.4fzyo82mvyr''
        (localStorage (handleUserNameChange [] demo_chatting))) = Some ''User-82mvyr''"
proof -
  have e: "\<forall>e \<in> set [InputChange ''anyone there?'']. \<not> is_name_change e" by simp
  have d: "db demo_chatting \<noteq> None \<and> truthy (userId demo_chatting)"
    using demo_chatting_can_send by (simp add: can_send_def)
  note t = empty_name_blocks_sending [of demo_chatting demo_globals None "''0.4fzyo82mvyr''"]
  from t e have "handleSendMessage demo_globals None
        (run demo_globals [InputChange ''anyone there?''] (handleUserNameChange [] demo_chatting))
      = run demo_globals [InputChange ''anyone there?''] (handleUserNameChange [] demo_chatting)"
    by blast
  moreover from t demo_init_sdk have "userName (mount demo_globals None ''0.4fzyo82mvyr''
        (localStorage (handleUserNameChange [] demo_chatting))) = Some ''User-82mvyr''"
    by simp
  moreover from t
  have "localStorage (handleUserNameChange [] demo_chatting) ''chatUserName'' = Some []"
    by blast
  ultimately show ?thesis using d demo_init_sdk by simp
qed

subsection \<open>Rendering the messages\<close>

text \<open>
  C8 as stated fails for a \<open>senderName\<close> that is present and empty: \<open>||\<close> falls back
  on every falsy value, so the message of \<open>u2\<close> is labelled \<open>u2\<close>, not with its name.
\<close>

theorem empty_sender_name_shows_id:
  "is_chat (render (snapshotNext demo_named demo_ready))
   \<and> map senderName (messages (snapshotNext demo_named demo_ready)) = [Some []]
   \<and> map label (view_rows (render (snapshotNext demo_named demo_ready))) = [Some ''u2'']"
  by (simp add: demo_named_def demo_defs handler_defs render_def render_message_def is_own_def
      array_sort_def fetched_def)

text \<open>
  C8, as the code has it. Whenever the chat is on screen after a mount and any
  sequence of events, a user is signed in and the chat shows one row per message, in
  the order of \<open>messages\<close>. A message whose \<open>senderId\<close> is the id of that user is
  right-aligned (\<open>justify-end\<close>) and labelled \<open>You\<close>; every other message is
  left-aligned (\<open>justify-start\<close>) and labelled with its \<open>senderName\<close>, or with its
  \<open>senderId\<close> if the \<open>senderName\<close> is absent or empty.
\<close>

theorem own_right_others_left:
  assumes "render (run g es (mount g sdk rnd ls)) = ChatScreen v"
  shows "\<exists>uid. userId (run g es (mount g sdk rnd ls)) = Some uid
    \<and> rows v = map (render_message (Some uid)) (messages (run g es (mount g sdk rnd ls)))
    \<and> (\<forall>m. (senderId m = Some uid \<longrightarrow>
              justify (render_message (Some uid) m) = ''justify-end''
              \<and> label (render_message (Some uid) m) = Some ''You'')
          \<and> (senderId m \<noteq> Some uid \<longrightarrow>
              justify (render_message (Some uid) m) = ''justify-start''
              \<and> label (render_message (Some uid) m) =
                  (case senderName m of
                     None \<Rightarrow> senderId m
                   | Some n \<Rightarrow> if n = [] then senderId m else Some n)))"
proof -
  let ?s = "run g es (mount g sdk rnd ls)"
  from assms have chat: "is_chat (render ?s)" by simp
  have "signed_in ?s" by (simp add: run_signed_in mount_signed_in)
  with chat obtain uid where uid: "userId ?s = Some uid"
    by (auto simp: signed_in_def is_chat_render)
  from assms chat uid have r: "rows v = map (render_message (Some uid)) (messages ?s)"
    by (auto simp: render_def is_chat_render split: if_splits)
  have "\<forall>m. (senderId m = Some uid \<longrightarrow>
              justify (render_message (Some uid) m) = ''justify-end''
              \<and> label (render_message (Some uid) m) = Some ''You'')
          \<and> (senderId m \<noteq> Some uid \<longrightarrow>
              justify (render_message (Some uid) m) = ''justify-start''
              \<and> label (render_message (Some uid) m) =
                  (case senderName m of
                     None \<Rightarrow> senderId m
                   | Some n \<Rightarrow> if n = [] then senderId m else Some n))"
    by (auto simp: render_message_def is_own_def split: option.splits)
  with uid r show ?thesis by blast
qed

theorem own_right_others_left_witness:
  "render (run demo_globals [AuthState (Some ''u1'') None, SnapshotNext demo_feed]
      (mount demo_globals None ''0.4fzyo82mvyr'' Map.empty)) = ChatScreen demo_view
   \<and> map justify (rows demo_view) = [''justify-start'', ''justify-end'']
   \<and> map label (rows demo_view) = [Some ''Bob'', Some ''You'']
   \<and> (\<exists>uid. rows demo_view = map (render_message (Some uid))
         (messages (run demo_globals [AuthState (Some ''u1'') None, SnapshotNext demo_feed]
            (mount demo_globals None ''0.4fzyo82mvyr'' Map.empty))))"
proof -
  have h: "render (run demo_globals [AuthState (Some ''u1'') None, SnapshotNext demo_feed]
      (mount demo_globals None ''0.4fzyo82mvyr'' Map.empty)) = ChatScreen demo_view"
    by (simp add: demo_defs handler_defs render_def render_message_def is_own_def
        array_sort_def compare_ts_def millis_or_0_def fetched_def demo_view_def)
  have r: "map justify (rows demo_view) = [''justify-start'', ''justify-end'']
      \<and> map label (rows demo_view) = [Some ''Bob'', Some ''You'']"
    by (simp add: demo_view_def)
  from own_right_others_left [OF h] h r show ?thesis by blast
qed

end
